theory Spec2Isabelle
  imports Complex_Main "HOL-Library.AList"
begin

section \<open>Numbers, JSON values and identifiers\<close>

text \<open>
  The TypeScript sources compute with JavaScript numbers. Timestamps are epoch
  milliseconds (\<open>int\<close>), hour quantities and averages are exact rationals (\<open>rat\<close>),
  scores and counters are integers. A division whose divisor may be zero yields a
  \<open>jsnum\<close>, so that JavaScript's infinities are values of the model and not HOL's
  \<open>x / 0 = 0\<close>.
\<close>

datatype jsnum = Fin rat | PosInf | NegInf | NaN



text \<open>\<open>Math.round\<close>: the nearest integer, a tie going towards plus infinity.\<close>

definition Math_round :: "rat \<Rightarrow> int" where
  "Math_round x = \<lfloor>x + 1 / 2\<rfloor>"

text \<open>Truthiness of an optional number and the idiom \<open>x || d\<close>.\<close>

fun truthy_num :: "rat option \<Rightarrow> bool" where
  "truthy_num None = False"
| "truthy_num (Some x) = (x \<noteq> 0)"

definition num_or :: "rat option \<Rightarrow> rat \<Rightarrow> rat" where
  "num_or x d = (if truthy_num x then the x else d)"

fun truthy_str :: "string option \<Rightarrow> bool" where
  "truthy_str None = False"
| "truthy_str (Some s) = (s \<noteq> [])"

datatype json =
    JNull
  | JBool bool
  | JNum rat
  | JStr string
  | JArr "json list"
  | JObj "(string \<times> json) list"

type_synonym uuid = string
type_synonym timestamp = int

section \<open>Core data types (lib/database)\<close>

datatype status = Todo | In_progress | Blocked | Done | Cancelled

record Task =
  id :: uuid
  user_id :: uuid
  parent_id :: "uuid option"
  title :: string
  description :: "string option"
  status :: status
  priority :: int
  progress :: int
  estimated_hours :: "rat option"
  actual_hours :: "rat option"
  due_at :: "timestamp option"
  scheduled_at :: "timestamp option"
  started_at :: "timestamp option"
  completed_at :: "timestamp option"
  tags :: "string list"
  context' :: "(string \<times> json) list"
  created_at :: timestamp
  updated_at :: timestamp

text \<open>
  \<open>Partial<Task>\<close>, the argument of \<open>createTask\<close> and \<open>updateTask\<close>: every field may be
  absent (\<open>None\<close> is JavaScript's \<open>undefined\<close>). The bookkeeping columns \<open>id\<close>, \<open>user_id\<close>,
  \<open>created_at\<close> and \<open>updated_at\<close> are not offered: no caller in the repository sets them.
\<close>

record PartialTask =
  p_parent_id :: "uuid option"
  p_title :: "string option"
  p_description :: "string option"
  p_status :: "status option"
  p_priority :: "int option"
  p_progress :: "int option"
  p_estimated_hours :: "rat option"
  p_actual_hours :: "rat option"
  p_due_at :: "timestamp option"
  p_scheduled_at :: "timestamp option"
  p_started_at :: "timestamp option"
  p_completed_at :: "timestamp option"
  p_tags :: "string list option"
  p_context :: "(string \<times> json) list option"

definition no_fields :: PartialTask where
  "no_fields =
     \<lparr>p_parent_id = None, p_title = None, p_description = None, p_status = None,
      p_priority = None, p_progress = None, p_estimated_hours = None,
      p_actual_hours = None, p_due_at = None, p_scheduled_at = None,
      p_started_at = None, p_completed_at = None, p_tags = None, p_context = None\<rparr>"

text \<open>The four assessed dimensions, shared by the assessment and the score row.\<close>

record dimensions =
  difficulty :: int
  innovation :: int
  quality :: int
  speed :: int

record scores = dimensions +
  overall_score :: int
  xp_earned :: int
  user_satisfaction :: "int option"
  user_notes :: "string option"

record TaskScore = scores +
  task_id :: uuid
  scored_at :: timestamp

section \<open>Assessor workflow: time metrics and final scores\<close>

record assessment = dimensions +
  highlights :: "string list option"
  improvements :: "string list option"

record time_metrics =
  estimatedHours :: rat
  actualHours :: rat
  speedRatio :: jsnum
  wasOnTime :: bool





text \<open>The step \<open>calculate-final-scores\<close>.\<close>

definition weights :: dimensions where
  "weights = \<lparr>difficulty = 3, innovation = 3, quality = 4, speed = 2\<rparr>"

definition Object_values :: "dimensions \<Rightarrow> int list" where
  "Object_values w = [difficulty w, innovation w, quality w, speed w]"

definition totalWeight :: int where
  "totalWeight = foldl (\<lambda>a b. a + b) 0 (Object_values weights)"

definition overall :: "'a dimensions_scheme \<Rightarrow> int" where
  "overall a =
     Math_round
       (of_int (difficulty a * difficulty weights + innovation a * innovation weights
                + quality a * quality weights + speed a * speed weights)
        / of_int totalWeight * 20)"

definition xp :: "'a dimensions_scheme \<Rightarrow> time_metrics \<Rightarrow> 'b list \<Rightarrow> int" where
  "xp a tm subtasks =
     (let xp0 = Math_round (of_int (overall a) / 10);
          xp1 = (if 5 \<le> innovation a then xp0 + 3 else xp0);
          xp2 = (if 5 \<le> quality a then xp1 + 2 else xp1);
          xp3 = (if wasOnTime tm then xp2 + 1 else xp2);
          xp4 = (if 0 < length subtasks then xp3 + 1 else xp3)
      in xp4)"

definition calculate_final_scores ::
  "'a dimensions_scheme \<Rightarrow> time_metrics \<Rightarrow> 'b list \<Rightarrow> int \<times> int" where
  "calculate_final_scores a tm subtasks = (overall a, xp a tm subtasks)"

section \<open>ML analyzer: statistics over the completed tasks\<close>

text \<open>
  A row of the history query: a completed task joined with its score (the score columns
  are absent when the task has no score row), with the hour and the day of the week of
  its completion.
\<close>

record history_row =
  completion_hour :: int
  completion_day :: int
  h_difficulty :: "int option"
  h_quality :: "int option"
  h_speed :: "int option"
  h_overall_score :: "int option"
  h_user_satisfaction :: "int option"
  h_estimated_hours :: "rat option"
  h_actual_hours :: "rat option"

definition int_or :: "int option \<Rightarrow> int \<Rightarrow> int" where
  "int_or x d = (case x of None \<Rightarrow> d | Some v \<Rightarrow> if v = 0 then d else v)"

record hour_stats =
  count :: nat
  avgQuality :: rat
  avgSpeed :: rat

record day_stats =
  d_count :: nat
  avgProductivity :: rat

record difficulty_group =
  g_count :: nat
  avgCompletionRate :: rat
  avgTimeAccuracy :: rat
  avgSatisfaction :: rat
  confidence :: rat

record completion_patterns =
  optimalHours :: "(int \<times> hour_stats) list"
  dayStats :: "(int \<times> day_stats) list"
  hourlyStats :: "(int \<times> hour_stats) list"
  sampleSize :: nat

record slot =
  slot_hour :: int
  slot_stats :: hour_stats
  hoursFromNow :: int
  recommendationScore :: rat

record predictions =
  nextOptimalSlots :: "slot list"
  currentProductivity :: rat
  recommendation :: "slot option"

text \<open>
  An object keyed by hours, days or difficulty levels is an association list. JavaScript
  enumerates such integer keys in ascending order, whatever the order of insertion.
\<close>

definition Object_entries :: "(int \<times> 'a) list \<Rightarrow> (int \<times> 'a) list" where
  "Object_entries obj = sort_key fst obj"

definition add_hour :: "history_row \<Rightarrow> (int \<times> hour_stats) list \<Rightarrow> (int \<times> hour_stats) list" where
  "add_hour task stats =
     (let hour = completion_hour task;
          cur = (case map_of stats hour of
                   None \<Rightarrow> \<lparr>count = 0, avgQuality = 0, avgSpeed = 0\<rparr>
                 | Some st \<Rightarrow> st)
      in AList.update hour
           \<lparr>count = count cur + 1,
            avgQuality = avgQuality cur + of_int (int_or (h_quality task) 3),
            avgSpeed = avgSpeed cur + of_int (int_or (h_speed task) 3)\<rparr>
           stats)"

definition hourly_stats :: "history_row list \<Rightarrow> (int \<times> hour_stats) list" where
  "hourly_stats recentTasks =
     map (\<lambda>(h, st). (h, st\<lparr>avgQuality := avgQuality st / of_nat (count st),
                             avgSpeed := avgSpeed st / of_nat (count st)\<rparr>))
       (fold add_hour recentTasks [])"

definition hour_score :: "hour_stats \<Rightarrow> rat" where
  "hour_score st = (avgQuality st + avgSpeed st) / 2"

definition optimal_hours :: "(int \<times> hour_stats) list \<Rightarrow> (int \<times> hour_stats) list" where
  "optimal_hours stats =
     take 3 (sort_key (\<lambda>(h, st). - hour_score st)
               (filter (\<lambda>(h, st). 2 \<le> count st) (Object_entries stats)))"

definition add_day :: "history_row \<Rightarrow> (int \<times> day_stats) list \<Rightarrow> (int \<times> day_stats) list" where
  "add_day task stats =
     (let day = completion_day task;
          cur = (case map_of stats day of
                   None \<Rightarrow> \<lparr>d_count = 0, avgProductivity = 0\<rparr>
                 | Some st \<Rightarrow> st)
      in AList.update day
           \<lparr>d_count = d_count cur + 1,
            avgProductivity = avgProductivity cur + of_int (int_or (h_overall_score task) 50)\<rparr>
           stats)"

definition day_stats_of :: "history_row list \<Rightarrow> (int \<times> day_stats) list" where
  "day_stats_of recentTasks =
     map (\<lambda>(d, st). (d, st\<lparr>avgProductivity := avgProductivity st / of_nat (d_count st)\<rparr>))
       (fold add_day recentTasks [])"

text \<open>The step \<open>analyze-completion-patterns\<close>.\<close>

definition analyze_completion_patterns :: "history_row list \<Rightarrow> completion_patterns option" where
  "analyze_completion_patterns recentTasks =
     (if length recentTasks < 5 then None
      else Some \<lparr>optimalHours = optimal_hours (hourly_stats recentTasks),
                 dayStats = day_stats_of recentTasks,
                 hourlyStats = hourly_stats recentTasks,
                 sampleSize = length recentTasks\<rparr>)"

text \<open>The step \<open>analyze-complexity-patterns\<close>.\<close>

definition add_difficulty ::
  "history_row \<Rightarrow> (int \<times> difficulty_group) list \<Rightarrow> (int \<times> difficulty_group) list" where
  "add_difficulty task groups =
     (let diff = int_or (h_difficulty task) 3;
          cur = (case map_of groups diff of
                   None \<Rightarrow> \<lparr>g_count = 0, avgCompletionRate = 0, avgTimeAccuracy = 0,
                             avgSatisfaction = 0, confidence = 0\<rparr>
                 | Some g \<Rightarrow> g);
          accuracy =
            (if truthy_num (h_estimated_hours task) \<and> truthy_num (h_actual_hours task)
             then min (the (h_estimated_hours task) / the (h_actual_hours task)) 2
             else 0)
      in AList.update diff
           (cur\<lparr>g_count := g_count cur + 1,
                 avgTimeAccuracy := avgTimeAccuracy cur + accuracy,
                 avgSatisfaction :=
                   avgSatisfaction cur + of_int (int_or (h_user_satisfaction task) 3)\<rparr>)
           groups)"

definition analyze_complexity_patterns :: "history_row list \<Rightarrow> (int \<times> difficulty_group) list" where
  "analyze_complexity_patterns recentTasks =
     map (\<lambda>(d, g). (d, g\<lparr>avgTimeAccuracy := avgTimeAccuracy g / of_nat (g_count g),
                           avgSatisfaction := avgSatisfaction g / of_nat (g_count g),
                           confidence := min (of_nat (g_count g) / 5) 1\<rparr>))
       (fold add_difficulty recentTasks [])"

text \<open>The step \<open>generate-predictions\<close>. \<open>%\<close> is the remainder of truncated division.\<close>

definition js_rem :: "int \<Rightarrow> int \<Rightarrow> int" where
  "js_rem a b = sgn a * (\<bar>a\<bar> mod \<bar>b\<bar>)"

definition generate_predictions ::
  "int \<Rightarrow> int \<Rightarrow> completion_patterns option \<Rightarrow> predictions option" where
  "generate_predictions currentHour currentDay completionPatterns =
     (case completionPatterns of
        None \<Rightarrow> None
      | Some cp \<Rightarrow>
          let slots = sort_key hoursFromNow
                        (map (\<lambda>(h, st). \<lparr>slot_hour = h, slot_stats = st,
                                          hoursFromNow = js_rem (h - currentHour + 24) 24,
                                          recommendationScore = hour_score st\<rparr>)
                           (optimalHours cp))
          in Some \<lparr>nextOptimalSlots = slots,
                    currentProductivity =
                      (case map_of (dayStats cp) currentDay of
                         None \<Rightarrow> 50
                       | Some st \<Rightarrow> num_or (Some (avgProductivity st)) 50),
                    recommendation = (case slots of [] \<Rightarrow> None | sl # _ \<Rightarrow> Some sl)\<rparr>)"

text \<open>
  The payloads the analyzer hands to the pattern store. They are kept structured; the store
  serialises them to JSON. Neither has a field \<open>sample_size\<close>.
\<close>

datatype pattern_payload =
    Scheduling_payload "(int \<times> hour_stats) list" "(int \<times> day_stats) list" timestamp
      "predictions option"
    \<comment> \<open>optimalHours, dayStats, lastUpdated, predictions\<close>
  | Complexity_payload "(int \<times> difficulty_group) list" timestamp
    \<comment> \<open>difficultyGroups, lastUpdated\<close>

fun sample_size_field :: "pattern_payload \<Rightarrow> rat option" where
  "sample_size_field (Scheduling_payload oh ds lu pr) = None"
| "sample_size_field (Complexity_payload dg lu) = None"

section \<open>Stores: relational tables, cache and event stream\<close>

text \<open>
  The relational store and the key-value store are state of the model. A table is the list
  of its rows in insertion order. The keyed structures of the cache are association lists:
  the hashes \<open>task:<id>\<close> (field to value), the sorted sets \<open>user:<id>:tasks\<close> (member to
  score), the counter \<open>total_xp\<close> of the hashes \<open>user:<id>:stats\<close>, and the stream
  \<open>events:task\<close>, oldest entry first. Values written to the cache and to the stream are
  kept structured; their encoding as strings is not modelled. One clock value \<open>now\<close> stands
  for the database's \<open>NOW()\<close> and the process's \<open>Date.now()\<close> during one operation.
  Column constraints of the schema other than the keys that \<open>ON CONFLICT\<close> names and
  \<open>NOT NULL\<close> on the title are not modelled.
\<close>

datatype error =
    TypeError \<comment> \<open>reading a property of \<open>undefined\<close>\<close>
  | SqlError \<comment> \<open>the database rejects the statement\<close>
  | ValidationError \<comment> \<open>named by the specification; no operation of the source raises it\<close>

datatype rval =
    RNull
  | RStr string
  | RNum rat
  | RInt int
  | RTime timestamp
  | RStatus status
  | RTags "string list"
  | RJson "(string \<times> json) list"

datatype event =
    TASK_CREATED uuid uuid string timestamp
    \<comment> \<open>taskId, userId, parentId, ts\<close>
  | TASK_UPDATED uuid uuid PartialTask timestamp
    \<comment> \<open>taskId, userId, delta, ts\<close>
  | TASK_COMPLETED uuid uuid timestamp timestamp
    \<comment> \<open>taskId, userId, completedAt, ts\<close>
  | TASK_SCORED uuid uuid int int timestamp
    \<comment> \<open>taskId, userId, xpEarned, overallScore, ts\<close>
  | META_PLAN_READY uuid uuid nat int timestamp
    \<comment> \<open>taskId, userId, subtaskCount, complexity, ts\<close>

record TaskPattern =
  tp_user_id :: uuid
  pattern_type :: string
  pattern_data :: pattern_payload
  confidence_score :: rat
  sample_size :: rat
  tp_updated_at :: timestamp

record state =
  tasks :: "Task list"
  task_scores :: "TaskScore list"
  task_patterns :: "TaskPattern list"
  task_cache :: "(uuid \<times> (string \<times> rval) list) list"
  user_tasks :: "(uuid \<times> (uuid \<times> timestamp) list) list"
  total_xp :: "(uuid \<times> int) list"
  events_task :: "event list"

definition hset ::
  "'k \<Rightarrow> ('f \<times> 'v) list \<Rightarrow> ('k \<times> ('f \<times> 'v) list) list \<Rightarrow> ('k \<times> ('f \<times> 'v) list) list" where
  "hset key fvs store =
     AList.update key
       (fold (\<lambda>(f, v). AList.update f v) fvs
          (case map_of store key of None \<Rightarrow> [] | Some h \<Rightarrow> h))
       store"


definition xadd :: "event \<Rightarrow> state \<Rightarrow> state" where
  "xadd e s = s\<lparr>events_task := events_task s @ [e]\<rparr>"

text \<open>\<open>SELECT * FROM tasks WHERE id = taskId\<close>, first row.\<close>

definition select_task :: "state \<Rightarrow> uuid \<Rightarrow> Task option" where
  "select_task s taskId = find (\<lambda>t. id t = taskId) (tasks s)"

section \<open>TaskManager\<close>

fun opt_rval :: "('a \<Rightarrow> rval) \<Rightarrow> 'a option \<Rightarrow> rval" where
  "opt_rval f None = RNull"
| "opt_rval f (Some v) = f v"

text \<open>The fields of a task row as \<open>createTask\<close> mirrors them into the cache.\<close>

definition task_fields :: "Task \<Rightarrow> (string \<times> rval) list" where
  "task_fields t =
     [(''id'', RStr (id t)),
      (''user_id'', RStr (user_id t)),
      (''parent_id'', opt_rval RStr (parent_id t)),
      (''title'', RStr (title t)),
      (''description'', opt_rval RStr (description t)),
      (''status'', RStatus (status t)),
      (''priority'', RInt (priority t)),
      (''progress'', RInt (progress t)),
      (''estimated_hours'', opt_rval RNum (estimated_hours t)),
      (''actual_hours'', opt_rval RNum (actual_hours t)),
      (''due_at'', (case due_at t of None \<Rightarrow> RStr [] | Some d \<Rightarrow> RTime d)),
      (''scheduled_at'', opt_rval RTime (scheduled_at t)),
      (''started_at'', opt_rval RTime (started_at t)),
      (''completed_at'', opt_rval RTime (completed_at t)),
      (''tags'', RTags (tags t)),
      (''context'', RJson (context' t)),
      (''created_at'', RTime (created_at t)),
      (''updated_at'', RTime (updated_at t))]"

text \<open>
  \<open>createTask\<close>. The \<open>INSERT\<close> names the columns \<open>user_id, title, description, priority,
  estimated_hours, due_at, tags, context\<close>; every other column takes the default of the
  schema: a generated \<open>id\<close> (the parameter \<open>new_id\<close>, assumed fresh), \<open>parent_id NULL\<close>,
  status \<open>todo\<close>, progress 0, no actual hours and no schedule, start or completion time.
  An absent title violates \<open>NOT NULL\<close>.
\<close>

definition inserted_row :: "uuid \<Rightarrow> timestamp \<Rightarrow> uuid \<Rightarrow> string \<Rightarrow> PartialTask \<Rightarrow> Task" where
  "inserted_row new_id now userId ttl taskData =
     \<lparr>id = new_id,
      user_id = userId,
      parent_id = None,
      title = ttl,
      description = Some (if truthy_str (p_description taskData)
                          then the (p_description taskData) else []),
      status = Todo,
      priority = (case p_priority taskData of
                    None \<Rightarrow> 3 | Some pr \<Rightarrow> if pr = 0 then 3 else pr),
      progress = 0,
      estimated_hours = (if truthy_num (p_estimated_hours taskData)
                         then p_estimated_hours taskData else None),
      actual_hours = None,
      due_at = p_due_at taskData,
      scheduled_at = None,
      started_at = None,
      completed_at = None,
      tags = (case p_tags taskData of None \<Rightarrow> [] | Some ts \<Rightarrow> ts),
      context' = (case p_context taskData of None \<Rightarrow> [] | Some c \<Rightarrow> c),
      created_at = now,
      updated_at = now\<rparr>"

definition createTask ::
  "uuid \<Rightarrow> timestamp \<Rightarrow> uuid \<Rightarrow> PartialTask \<Rightarrow> state \<Rightarrow> (error + Task) \<times> state" where
  "createTask new_id now userId taskData s =
     (case p_title taskData of
        None \<Rightarrow> (Inl SqlError, s)
      | Some ttl \<Rightarrow>
          let task = inserted_row new_id now userId ttl taskData;
              s1 = s\<lparr>tasks := tasks s @ [task]\<rparr>;
              s2 = s1\<lparr>task_cache := hset (id task) (task_fields task) (task_cache s1)\<rparr>;
              s3 = s2\<lparr>user_tasks :=
                        hset userId [(id task, created_at task)] (user_tasks s2)\<rparr>;
              s4 = xadd (TASK_CREATED (id task) userId
                           (if truthy_str (parent_id task) then the (parent_id task) else [])
                           now) s3
          in (Inr task, s4))"

text \<open>
  \<open>updateTask\<close>. The \<open>SET\<close> clause assigns every field present in \<open>updates\<close>, followed by
  \<open>updated_at = NOW()\<close>; with no field present the clause starts with a comma and the
  database rejects the statement. The quoting of the literals is not modelled.
\<close>

definition assign :: "'a option \<Rightarrow> 'a \<Rightarrow> 'a" where
  "assign u old = (case u of None \<Rightarrow> old | Some v \<Rightarrow> v)"

definition assign_opt :: "'a option \<Rightarrow> 'a option \<Rightarrow> 'a option" where
  "assign_opt u old = (case u of None \<Rightarrow> old | Some v \<Rightarrow> Some v)"

definition apply_set :: "PartialTask \<Rightarrow> timestamp \<Rightarrow> Task \<Rightarrow> Task" where
  "apply_set u now t =
     t\<lparr>parent_id := assign_opt (p_parent_id u) (parent_id t),
       title := assign (p_title u) (title t),
       description := assign_opt (p_description u) (description t),
       status := assign (p_status u) (status t),
       priority := assign (p_priority u) (priority t),
       progress := assign (p_progress u) (progress t),
       estimated_hours := assign_opt (p_estimated_hours u) (estimated_hours t),
       actual_hours := assign_opt (p_actual_hours u) (actual_hours t),
       due_at := assign_opt (p_due_at u) (due_at t),
       scheduled_at := assign_opt (p_scheduled_at u) (scheduled_at t),
       started_at := assign_opt (p_started_at u) (started_at t),
       completed_at := assign_opt (p_completed_at u) (completed_at t),
       tags := assign (p_tags u) (tags t),
       context' := assign (p_context u) (context' t),
       updated_at := now\<rparr>"

fun present :: "string \<Rightarrow> ('a \<Rightarrow> rval) \<Rightarrow> 'a option \<Rightarrow> (string \<times> rval) list" where
  "present k f None = []"
| "present k f (Some v) = [(k, f v)]"

definition redisData :: "PartialTask \<Rightarrow> timestamp \<Rightarrow> (string \<times> rval) list" where
  "redisData u now =
     present ''parent_id'' RStr (p_parent_id u)
     @ present ''title'' RStr (p_title u)
     @ present ''description'' RStr (p_description u)
     @ present ''status'' RStatus (p_status u)
     @ present ''priority'' RInt (p_priority u)
     @ present ''progress'' RInt (p_progress u)
     @ present ''estimated_hours'' RNum (p_estimated_hours u)
     @ present ''actual_hours'' RNum (p_actual_hours u)
     @ present ''due_at'' RTime (p_due_at u)
     @ present ''scheduled_at'' RTime (p_scheduled_at u)
     @ present ''started_at'' RTime (p_started_at u)
     @ present ''completed_at'' RTime (p_completed_at u)
     @ present ''tags'' RTags (p_tags u)
     @ present ''context'' RJson (p_context u)
     @ [(''updated_at'', RTime now)]"

definition updateTask ::
  "timestamp \<Rightarrow> uuid \<Rightarrow> PartialTask \<Rightarrow> state \<Rightarrow> (error + Task) \<times> state" where
  "updateTask now taskId updates s =
     (if updates = no_fields then (Inl SqlError, s)
      else
        let rows = map (apply_set updates now) (filter (\<lambda>t. id t = taskId) (tasks s));
            s1 = s\<lparr>tasks := map (\<lambda>t. if id t = taskId then apply_set updates now t else t)
                                (tasks s)\<rparr>;
            s2 = s1\<lparr>task_cache := hset taskId (redisData updates now) (task_cache s1)\<rparr>
        in case rows of
             [] \<Rightarrow> (Inl TypeError, s2)
           | task # _ \<Rightarrow>
               let s3 = xadd (TASK_UPDATED taskId (user_id task) updates now) s2;
                   s4 = (if p_status updates = Some Done \<and> completed_at task \<noteq> None
                         then xadd (TASK_COMPLETED taskId (user_id task)
                                      (the (completed_at task)) now) s3
                         else s3)
               in (Inr task, s4))"




text \<open>
  \<open>storePattern\<close>: upsert on the pair (user, pattern type), which the statement names as
  its conflict target and which is taken to be a key of the table. The sample size is the
  payload's field \<open>sample_size\<close>, or 1.
\<close>

definition storePattern ::
  "timestamp \<Rightarrow> uuid \<Rightarrow> string \<Rightarrow> pattern_payload \<Rightarrow> rat \<Rightarrow> state \<Rightarrow> state" where
  "storePattern now userId patternType patternData conf s =
     (let ex = \<lparr>tp_user_id = userId, pattern_type = patternType,
                pattern_data = patternData, confidence_score = conf,
                sample_size = num_or (sample_size_field patternData) 1,
                tp_updated_at = now\<rparr>;
          conflict = (\<lambda>r. tp_user_id r = userId \<and> pattern_type r = patternType)
      in s\<lparr>task_patterns :=
             (if \<exists>r \<in> set (task_patterns s). conflict r
              then map (\<lambda>r. if conflict r
                             then r\<lparr>pattern_data := pattern_data ex,
                                    confidence_score := confidence_score ex,
                                    sample_size := sample_size ex,
                                    tp_updated_at := now\<rparr>
                             else r) (task_patterns s)
              else task_patterns s @ [ex])\<rparr>)"

text \<open>The step \<open>update-patterns\<close> of the ML analyzer.\<close>

definition update_patterns ::
  "timestamp \<Rightarrow> uuid \<Rightarrow> completion_patterns option \<Rightarrow> (int \<times> difficulty_group) list
     \<Rightarrow> predictions option \<Rightarrow> state \<Rightarrow> state" where
  "update_patterns now userId completionPatterns complexityPatterns preds s =
     (let s1 = (case completionPatterns of
                  None \<Rightarrow> s
                | Some cp \<Rightarrow>
                    storePattern now userId ''optimal_scheduling''
                      (Scheduling_payload (optimalHours cp) (dayStats cp) now preds)
                      (min (of_nat (sampleSize cp) / 20) 1) s)
      in storePattern now userId ''complexity_handling''
           (Complexity_payload complexityPatterns now) (8 / 10) s1)"

text \<open>
  The analyzer from the history rows to the pattern store: the steps
  \<open>analyze-completion-patterns\<close>, \<open>analyze-complexity-patterns\<close>, \<open>generate-predictions\<close>
  and \<open>update-patterns\<close>, in this order.
\<close>

definition ml_analyzer ::
  "timestamp \<Rightarrow> int \<Rightarrow> int \<Rightarrow> uuid \<Rightarrow> history_row list \<Rightarrow> state
     \<Rightarrow> completion_patterns option \<times> state" where
  "ml_analyzer now currentHour currentDay userId recentTasks s =
     (let completionPatterns = analyze_completion_patterns recentTasks;
          complexityPatterns = analyze_complexity_patterns recentTasks;
          preds = generate_predictions currentHour currentDay completionPatterns
      in (completionPatterns,
          update_patterns now userId completionPatterns complexityPatterns preds s))"

section \<open>Planner workflow\<close>

record subtask_descriptor =
  sub_title :: "string option"
  sub_description :: "string option"
  sub_estimatedHours :: "rat option"
  sub_tags :: "string list option"
  sub_dependencies :: "int list option"

record analysis =
  needsSubtasks :: bool
  reasoning :: "string option"
  estimatedComplexity :: "int option"
  suggestedDuration :: "rat option"
  subtasks :: "subtask_descriptor list option"

datatype planner_result =
    Skipped string
    \<comment> \<open>skipped, with the reason\<close>
  | Planned nat int "string option"
    \<comment> \<open>subtasksCreated, complexity, reasoning\<close>
  | Unplanned string
    \<comment> \<open>no subtask created, with the reasoning\<close>

fun opt_field :: "string \<Rightarrow> ('a \<Rightarrow> json) \<Rightarrow> 'a option \<Rightarrow> (string \<times> json) list" where
  "opt_field k f None = []"
| "opt_field k f (Some v) = [(k, f v)]"

definition subtask_context :: "analysis \<Rightarrow> nat \<Rightarrow> subtask_descriptor \<Rightarrow> (string \<times> json) list" where
  "subtask_context an index subtask =
     [(''dependencies'',
         JArr (map (\<lambda>d. JNum (of_int d))
                 (case sub_dependencies subtask of None \<Rightarrow> [] | Some ds \<Rightarrow> ds))),
      (''plannedOrder'', JNum (of_nat index))]
     @ opt_field ''parentComplexity'' (\<lambda>c. JNum (of_int c)) (estimatedComplexity an)"

definition subtask_data :: "uuid \<Rightarrow> analysis \<Rightarrow> nat \<Rightarrow> subtask_descriptor \<Rightarrow> PartialTask" where
  "subtask_data taskId an index subtask =
     no_fields
       \<lparr>p_title := sub_title subtask,
        p_description := sub_description subtask,
        p_parent_id := Some taskId,
        p_estimated_hours := sub_estimatedHours subtask,
        p_tags := Some (case sub_tags subtask of None \<Rightarrow> [] | Some ts \<Rightarrow> ts),
        p_context := Some (subtask_context an index subtask)\<rparr>"

text \<open>
  The loop of the step \<open>create-subtasks\<close>, in array order. \<open>gen index\<close> is the identifier
  the database generates for the row of the subtask at \<open>index\<close>. An exception leaves the
  loop with the subtasks created so far in the store.
\<close>

fun create_subtasks ::
  "(nat \<Rightarrow> uuid) \<Rightarrow> timestamp \<Rightarrow> uuid \<Rightarrow> uuid \<Rightarrow> analysis \<Rightarrow> nat
     \<Rightarrow> subtask_descriptor list \<Rightarrow> Task list \<Rightarrow> state \<Rightarrow> (error + Task list) \<times> state" where
  "create_subtasks gen now userId taskId an index [] created s = (Inr created, s)"
| "create_subtasks gen now userId taskId an index (subtask # rest) created s =
     (case createTask (gen index) now userId (subtask_data taskId an index subtask) s of
        (Inl e, s') \<Rightarrow> (Inl e, s')
      | (Inr newTask, s') \<Rightarrow>
          create_subtasks gen now userId taskId an (Suc index) rest (created @ [newTask]) s')"

definition parent_updates :: "Task \<Rightarrow> analysis \<Rightarrow> nat \<Rightarrow> PartialTask" where
  "parent_updates task an n =
     no_fields
       \<lparr>p_estimated_hours := suggestedDuration an,
        p_context := Some
          (fold (\<lambda>(k, v). AList.update k v)
             ([(''planningCompleted'', JBool True)]
              @ opt_field ''complexityScore'' (\<lambda>c. JNum (of_int c)) (estimatedComplexity an)
              @ [(''subtaskCount'', JNum (of_nat n))]
              @ opt_field ''planningReasoning'' JStr (reasoning an))
             (context' task))\<rparr>"

text \<open>
  The workflow. \<open>an\<close> is the result of the step \<open>analyze-task\<close> (the parsed answer of the
  language model, or the default of a failed parse); the step writes nothing.
\<close>

definition planner ::
  "(nat \<Rightarrow> uuid) \<Rightarrow> timestamp \<Rightarrow> analysis \<Rightarrow> uuid \<Rightarrow> uuid \<Rightarrow> state
     \<Rightarrow> (error + planner_result) \<times> state" where
  "planner gen now an taskId userId s =
     (case select_task s taskId of
        None \<Rightarrow> (Inr (Skipped ''Not a root task''), s)
      | Some task \<Rightarrow>
          if truthy_str (parent_id task) then (Inr (Skipped ''Not a root task''), s)
          else if needsSubtasks an
                  \<and> (case subtasks an of None \<Rightarrow> False | Some l \<Rightarrow> l \<noteq> [])
          then
            (case create_subtasks gen now userId taskId an 0 (the (subtasks an)) [] s of
               (Inl e, s1) \<Rightarrow> (Inl e, s1)
             | (Inr created, s1) \<Rightarrow>
                 (case updateTask now taskId (parent_updates task an (length created)) s1 of
                    (Inl e, s2) \<Rightarrow> (Inl e, s2)
                  | (Inr parent, s2) \<Rightarrow>
                      (case estimatedComplexity an of
                         None \<Rightarrow> (Inl TypeError, s2)
                       | Some c \<Rightarrow>
                           (Inr (Planned (length created) c (reasoning an)),
                            xadd (META_PLAN_READY taskId userId (length created) c now) s2))))
          else
            (Inr (Unplanned (if truthy_str (reasoning an) then the (reasoning an)
                             else ''Task doesn't need subtasks'')), s))"

section \<open>Assessor workflow: the step calculate-time-metrics\<close>


section \<open>Calendar analytics\<close>


text \<open>
  The velocity trend of the route \<open>/api/calendar/analytics\<close>. The query groups the user's
  completed tasks of the last 56 days by the date of completion and counts each group;
  a date is the number of its day, and as a time the start of that day. Days are days of
  universal time, and the counts are numbers.
\<close>

definition ms_per_day :: int where
  "ms_per_day = 24 * 60 * 60 * 1000"




definition recentTasks :: "timestamp \<Rightarrow> (int \<times> int) list \<Rightarrow> (int \<times> int) list" where
  "recentTasks now rows = filter (\<lambda>t. now - 28 * ms_per_day \<le> fst t * ms_per_day) rows"






section \<open>Reading the counter, and example inputs\<close>


definition empty_state :: state where
  "empty_state =
     \<lparr>tasks = [], task_scores = [], task_patterns = [], task_cache = [],
      user_tasks = [], total_xp = [], events_task = []\<rparr>"

definition root_task :: Task where
  "root_task =
     \<lparr>id = ''t1'', user_id = ''u1'', parent_id = None, title = ''Write report'',
      description = Some [], status = Todo, priority = 3, progress = 0,
      estimated_hours = Some 5, actual_hours = None, due_at = None, scheduled_at = None,
      started_at = None, completed_at = None, tags = [], context' = [],
      created_at = 1000, updated_at = 1000\<rparr>"

definition child_task :: Task where
  "child_task = root_task\<lparr>id := ''c1'', parent_id := Some ''t1'', title := ''Outline''\<rparr>"

definition example_state :: state where
  "example_state = empty_state\<lparr>tasks := [root_task, child_task]\<rparr>"

definition root_only :: state where
  "root_only = empty_state\<lparr>tasks := [root_task]\<rparr>"



definition two_subtasks :: analysis where
  "two_subtasks =
     \<lparr>needsSubtasks = True, reasoning = Some ''two phases'', estimatedComplexity = Some 3,
      suggestedDuration = Some 4,
      subtasks = Some
        [\<lparr>sub_title = Some ''Collect data'', sub_description = Some ''data collected'',
          sub_estimatedHours = Some 1, sub_tags = None, sub_dependencies = None\<rparr>,
         \<lparr>sub_title = Some ''Write text'', sub_description = Some ''text written'',
          sub_estimatedHours = Some 1, sub_tags = Some [''writing''],
          sub_dependencies = Some [0]\<rparr>]\<rparr>"

definition two_ids :: "nat \<Rightarrow> uuid" where
  "two_ids n = (if n = 0 then ''s0'' else ''s1'')"





definition history4 :: "history_row list" where
  "history4 =
     replicate 4
       \<lparr>completion_hour = 9, completion_day = 1, h_difficulty = Some 2, h_quality = Some 4,
        h_speed = Some 4, h_overall_score = Some 70, h_user_satisfaction = None,
        h_estimated_hours = Some 2, h_actual_hours = Some 1\<rparr>"


section \<open>The specification's wording, for comparison\<close>



section \<open>Properties of the final scores\<close>

lemma totalWeight_eq: "totalWeight = 12"
  by (simp add: totalWeight_def Object_values_def weights_def)

lemma overall_eq_round:
  "overall a =
     round (of_int (3 * difficulty a + 3 * innovation a + 4 * quality a + 2 * speed a)
            / (3 + 3 + 4 + 2) * (100 / 5 :: rat))"
  by (simp add: overall_def Math_round_def round_def totalWeight_eq weights_def
      algebra_simps)

lemma overall_as_div:
  "overall a =
     (10 * (3 * difficulty a + 3 * innovation a + 4 * quality a + 2 * speed a) + 3) div 6"
proof -
  let ?n = "3 * difficulty a + 3 * innovation a + 4 * quality a + 2 * speed a"
  have "(of_int ?n / 12 * 20 + 1 / 2 :: rat) = of_int (10 * ?n + 3) / of_int 6"
    by (simp add: field_simps)
  then have "\<lfloor>(of_int ?n / 12 * 20 + 1 / 2 :: rat)\<rfloor> = (10 * ?n + 3) div 6"
    by (simp only: floor_divide_of_int_eq)
  then show ?thesis
    by (simp add: overall_def Math_round_def totalWeight_eq weights_def algebra_simps)
qed

lemma xp_unfold:
  "xp a tm subs =
     (overall a + 5) div 10
     + (if 5 \<le> innovation a then 3 else 0) + (if 5 \<le> quality a then 2 else 0)
     + (if wasOnTime tm then 1 else 0) + (if subs \<noteq> [] then 1 else 0)"
proof -
  have "(of_int (overall a) / 10 + 1 / 2 :: rat) = of_int (overall a + 5) / of_int 10"
    by (simp add: field_simps)
  then have "Math_round (of_int (overall a) / 10) = (overall a + 5) div 10"
    unfolding Math_round_def by (simp only: floor_divide_of_int_eq)
  then show ?thesis
    by (simp add: xp_def Let_def)
qed

lemma round_tenth: "round (of_int k / (10 :: rat)) = (k + 5) div 10"
proof -
  have "(of_int k / 10 + 1 / 2 :: rat) = of_int (k + 5) / of_int 10"
    by (simp add: field_simps)
  then show ?thesis
    unfolding round_def by (simp only: floor_divide_of_int_eq)
qed

text \<open>
  C2. For dimension scores in 1..5 the overall score is the weighted average of the four
  dimensions with weights difficulty 3, innovation 3, quality 4, speed 2, scaled from the
  1..5 range to 0..100 (a factor of 100/5) and rounded to the nearest integer. It lies in
  [0,100], it depends on nothing but the four dimensions (neither on the other fields of
  the assessment nor on the time metrics or the subtasks), and the dimensions 5,5,5,5
  give 100 and 1,1,1,1 give 20.
\<close>

theorem overall_score_weighted_average:
  fixes a :: "'a dimensions_scheme" and b :: "'b dimensions_scheme"
    and subs :: "'c list" and subs' :: "'d list"
  assumes "1 \<le> difficulty a" "difficulty a \<le> 5"
    and "1 \<le> innovation a" "innovation a \<le> 5"
    and "1 \<le> quality a" "quality a \<le> 5"
    and "1 \<le> speed a" "speed a \<le> 5"
  shows "fst (calculate_final_scores a tm subs) =
           round (of_int (3 * difficulty a + 3 * innovation a + 4 * quality a + 2 * speed a)
                  / (3 + 3 + 4 + 2) * (100 / 5 :: rat))
       \<and> 0 \<le> fst (calculate_final_scores a tm subs)
       \<and> fst (calculate_final_scores a tm subs) \<le> 100
       \<and> (difficulty b = difficulty a \<and> innovation b = innovation a
            \<and> quality b = quality a \<and> speed b = speed a
          \<longrightarrow> fst (calculate_final_scores b tm' subs') = fst (calculate_final_scores a tm subs))
       \<and> fst (calculate_final_scores
                \<lparr>difficulty = 5, innovation = 5, quality = 5, speed = 5\<rparr> tm subs) = 100
       \<and> fst (calculate_final_scores
                \<lparr>difficulty = 1, innovation = 1, quality = 1, speed = 1\<rparr> tm subs) = 20"
proof -
  have avg: "fst (calculate_final_scores a tm subs) =
      round (of_int (3 * difficulty a + 3 * innovation a + 4 * quality a + 2 * speed a)
             / (3 + 3 + 4 + 2) * (100 / 5 :: rat))"
    unfolding calculate_final_scores_def fst_conv by (rule overall_eq_round)
  have lo: "0 \<le> fst (calculate_final_scores a tm subs)"
    using assms by (simp add: calculate_final_scores_def overall_as_div)
  have hi: "fst (calculate_final_scores a tm subs) \<le> 100"
    using assms by (simp add: calculate_final_scores_def overall_as_div)
  have det: "difficulty b = difficulty a \<and> innovation b = innovation a
       \<and> quality b = quality a \<and> speed b = speed a
     \<longrightarrow> fst (calculate_final_scores b tm' subs') = fst (calculate_final_scores a tm subs)"
    by (simp add: calculate_final_scores_def overall_as_div)
  have top: "fst (calculate_final_scores
      \<lparr>difficulty = 5, innovation = 5, quality = 5, speed = 5\<rparr> tm subs) = 100"
    by (simp add: calculate_final_scores_def overall_as_div)
  have bot: "fst (calculate_final_scores
      \<lparr>difficulty = 1, innovation = 1, quality = 1, speed = 1\<rparr> tm subs) = 20"
    by (simp add: calculate_final_scores_def overall_as_div)
  from avg lo hi det top bot show ?thesis by blast
qed

theorem overall_score_weighted_average_witness:
  "fst (calculate_final_scores
          \<lparr>difficulty = 3, innovation = 5, quality = 5, speed = 2\<rparr>
          \<lparr>estimatedHours = 1, actualHours = 1, speedRatio = Fin 1, wasOnTime = True\<rparr>
          [()]) = 80
   \<and> fst (calculate_final_scores
          \<lparr>difficulty = 3, innovation = 5, quality = 5, speed = 2,
           highlights = None, improvements = None\<rparr>
          \<lparr>estimatedHours = 2, actualHours = 9, speedRatio = Fin (2 / 9), wasOnTime = False\<rparr>
          ([] :: unit list)) = 80"
  using overall_score_weighted_average
    [where a = "\<lparr>difficulty = 3, innovation = 5, quality = 5, speed = 2\<rparr>"
       and b = "\<lparr>difficulty = 3, innovation = 5, quality = 5, speed = 2,
                 highlights = None, improvements = None\<rparr>"
       and tm = "\<lparr>estimatedHours = 1, actualHours = 1, speedRatio = Fin 1, wasOnTime = True\<rparr>"
       and subs = "[()]"
       and tm' = "\<lparr>estimatedHours = 2, actualHours = 9, speedRatio = Fin (2 / 9),
                   wasOnTime = False\<rparr>"
       and subs' = "[] :: unit list"]
  by (simp add: calculate_final_scores_def overall_as_div)

text \<open>
  C3. The experience points are round(overall/10) plus four bonuses that add up
  independently: 3 for innovation at least 5, 2 for quality at least 5, 1 for a task that
  was on time and 1 for a task with subtasks. With innovation 5, quality 5, on time, with
  subtasks and an overall score of 80 this is 8 + 3 + 2 + 1 + 1 = 15.
\<close>

theorem xp_base_plus_additive_bonuses:
  fixes a :: "'a dimensions_scheme" and subs :: "'c list"
  shows "snd (calculate_final_scores a tm subs) =
           round (of_int (fst (calculate_final_scores a tm subs)) / (10 :: rat))
           + (if 5 \<le> innovation a then 3 else 0)
           + (if 5 \<le> quality a then 2 else 0)
           + (if wasOnTime tm then 1 else 0)
           + (if subs \<noteq> [] then 1 else 0)
       \<and> (innovation a = 5 \<and> quality a = 5 \<and> wasOnTime tm \<and> subs \<noteq> []
            \<and> fst (calculate_final_scores a tm subs) = 80
          \<longrightarrow> snd (calculate_final_scores a tm subs) = 15)"
  by (simp add: calculate_final_scores_def xp_unfold round_tenth)

theorem xp_base_plus_additive_bonuses_witness:
  "fst (calculate_final_scores
          \<lparr>difficulty = 3, innovation = 5, quality = 5, speed = 2\<rparr>
          \<lparr>estimatedHours = 1, actualHours = 1, speedRatio = Fin 1, wasOnTime = True\<rparr>
          [()]) = 80
   \<and> snd (calculate_final_scores
          \<lparr>difficulty = 3, innovation = 5, quality = 5, speed = 2\<rparr>
          \<lparr>estimatedHours = 1, actualHours = 1, speedRatio = Fin 1, wasOnTime = True\<rparr>
          [()]) = 15"
proof -
  have overall80: "fst (calculate_final_scores
          \<lparr>difficulty = 3, innovation = 5, quality = 5, speed = 2\<rparr>
          \<lparr>estimatedHours = 1, actualHours = 1, speedRatio = Fin 1, wasOnTime = True\<rparr>
          [()]) = 80"
    by (simp add: calculate_final_scores_def overall_as_div)
  with xp_base_plus_additive_bonuses
    [of "\<lparr>difficulty = 3, innovation = 5, quality = 5, speed = 2\<rparr>"
        "\<lparr>estimatedHours = 1, actualHours = 1, speedRatio = Fin 1, wasOnTime = True\<rparr>"
        "[()]"]
  show ?thesis by simp
qed

section \<open>Properties of the task store\<close>






















section \<open>Properties of the planner\<close>

text \<open>
  C7. For a task that has a parent, and for a task id that matches no row, the planner
  returns the result \<open>skipped\<close> and leaves the whole state as it was: no subtask is
  created and nothing is written.
\<close>

theorem planner_skips_child_and_missing_task:
  assumes "select_task s tid = None
         \<or> (\<exists>t p. select_task s tid = Some t \<and> parent_id t = Some p \<and> p \<noteq> [])"
  shows "planner gen now an tid uid s = (Inr (Skipped ''Not a root task''), s)"
  using assms by (auto simp: planner_def)

theorem planner_skips_child_and_missing_task_witness:
  "planner (\<lambda>n. ''x'') 5 \<lparr>needsSubtasks = True, reasoning = None, estimatedComplexity = Some 3,
       suggestedDuration = None,
       subtasks = Some [\<lparr>sub_title = Some ''A'', sub_description = None,
          sub_estimatedHours = None, sub_tags = None, sub_dependencies = None\<rparr>]\<rparr>
     ''c1'' ''u1'' example_state = (Inr (Skipped ''Not a root task''), example_state)
  \<and> planner (\<lambda>n. ''x'') 5 \<lparr>needsSubtasks = True, reasoning = None, estimatedComplexity = Some 3,
       suggestedDuration = None,
       subtasks = Some [\<lparr>sub_title = Some ''A'', sub_description = None,
          sub_estimatedHours = None, sub_tags = None, sub_dependencies = None\<rparr>]\<rparr>
     ''zz'' ''u1'' example_state = (Inr (Skipped ''Not a root task''), example_state)"
proof -
  have c: "select_task example_state ''c1'' = Some child_task \<and> parent_id child_task = Some ''t1''"
    by (simp add: select_task_def example_state_def root_task_def child_task_def empty_state_def)
  have z: "select_task example_state ''zz'' = None"
    by (simp add: select_task_def example_state_def root_task_def child_task_def empty_state_def)
  from c have c': "select_task example_state ''c1'' = None
         \<or> (\<exists>t p. select_task example_state ''c1'' = Some t \<and> parent_id t = Some p \<and> p \<noteq> [])"
    by simp
  from z have z': "select_task example_state ''zz'' = None
         \<or> (\<exists>t p. select_task example_state ''zz'' = Some t \<and> parent_id t = Some p \<and> p \<noteq> [])"
    by simp
  from planner_skips_child_and_missing_task[OF c'] planner_skips_child_and_missing_task[OF z'] show ?thesis by simp
qed

text \<open>
  Every row that \<open>createTask\<close> inserts has no parent: the \<open>INSERT\<close> does not name the
  column \<open>parent_id\<close>, whatever the caller passes.
\<close>

lemma createTask_parent_id:
  "createTask new_id now userId taskData s = (Inr t, s') \<Longrightarrow> parent_id t = None"
  by (auto simp: createTask_def inserted_row_def Let_def split: option.splits)

text \<open>
  What the loop of \<open>create-subtasks\<close> does when it completes: it appends one row per
  subtask, in array order, the row at index \<open>i\<close> carrying the context built for \<open>i\<close>
  (dependencies, plannedOrder \<open>i\<close>, parentComplexity) and no parent.
\<close>

lemma create_subtasks_rows:
  assumes "create_subtasks gen now uid tid an index subs created s = (Inr created', s')"
  shows "\<exists>new. tasks s' = tasks s @ new \<and> created' = created @ new
           \<and> map (\<lambda>t. (id t, parent_id t, context' t)) new
               = map (\<lambda>(i, st). (gen i, None, subtask_context an i st))
                   (enumerate index subs)"
  using assms
proof (induction subs arbitrary: index created s)
  case Nil
  then show ?case by simp
next
  case (Cons st rest)
  from Cons.prems obtain newTask s1 where
    c: "createTask (gen index) now uid (subtask_data tid an index st) s = (Inr newTask, s1)"
    and r: "create_subtasks gen now uid tid an (Suc index) rest (created @ [newTask]) s1
              = (Inr created', s')"
    by (auto split: prod.splits sum.splits)
  from c have t1: "tasks s1 = tasks s @ [newTask]"
    and nt: "id newTask = gen index \<and> parent_id newTask = None
             \<and> context' newTask = subtask_context an index st"
    by (auto simp: createTask_def Let_def xadd_def inserted_row_def subtask_data_def no_fields_def
        split: option.splits)
  from Cons.IH[OF r] obtain new where
    n: "tasks s' = tasks s1 @ new" "created' = (created @ [newTask]) @ new"
       "map (\<lambda>t. (id t, parent_id t, context' t)) new
          = map (\<lambda>(i, st). (gen i, None, subtask_context an i st))
              (enumerate (Suc index) rest)"
    by blast
  have "tasks s' = tasks s @ (newTask # new) \<and> created' = created @ (newTask # new)
      \<and> map (\<lambda>t. (id t, parent_id t, context' t)) (newTask # new)
          = map (\<lambda>(i, st). (gen i, None, subtask_context an i st))
              (enumerate index (st # rest))"
    using n t1 nt by simp
  then show ?case by blast
qed

text \<open>
  C1. The claim: every subtask the planner creates for a root task is a child of that task
  (its \<open>parent_id\<close> is the task's id) and carries \<open>dependencies\<close>, \<open>plannedOrder\<close> (its
  index) and \<open>parentComplexity\<close> in its context, in array order. Evaluated on the root
  task \<open>t1\<close> and an analysis with two subtasks, the planner creates the two rows in array
  order with the three context fields, but both rows have no parent, although the planner
  passes \<open>parent_id = t1\<close> to \<open>createTask\<close>.
\<close>

theorem planner_subtasks_lose_parent_id:
  "fst (planner two_ids 2000 two_subtasks ''t1'' ''u1'' root_only)
     = Inr (Planned 2 3 (Some ''two phases''))
   \<and> map (\<lambda>t. (id t, parent_id t, context' t))
       (tasks (snd (planner two_ids 2000 two_subtasks ''t1'' ''u1'' root_only)))
     = [(''t1'', None,
          [(''planningCompleted'', JBool True), (''complexityScore'', JNum 3),
           (''subtaskCount'', JNum 2), (''planningReasoning'', JStr ''two phases'')]),
        (''s0'', None,
          [(''dependencies'', JArr []), (''plannedOrder'', JNum 0),
           (''parentComplexity'', JNum 3)]),
        (''s1'', None,
          [(''dependencies'', JArr [JNum 0]), (''plannedOrder'', JNum 1),
           (''parentComplexity'', JNum 3)])]"
  by (simp add: planner_def select_task_def root_only_def empty_state_def root_task_def
      two_subtasks_def two_ids_def createTask_def inserted_row_def subtask_data_def
      subtask_context_def no_fields_def Let_def xadd_def hset_def task_fields_def
      updateTask_def parent_updates_def apply_set_def assign_def assign_opt_def redisData_def)


section \<open>Properties of updateTask\<close>















section \<open>Properties of the time metrics\<close>











section \<open>Properties of the ML analyzer\<close>

lemma filter_map_other_type:
  fixes rows :: "TaskPattern list"
  assumes "pt \<noteq> pt'" and "\<And>r. pattern_type (g r) = pattern_type r"
  shows "filter (\<lambda>r. pattern_type r = pt')
           (map (\<lambda>r. if P r \<and> pattern_type r = pt then g r else r) rows)
         = filter (\<lambda>r. pattern_type r = pt') rows"
  using assms by (induction rows) auto

lemma storePattern_other_type:
  assumes "pt \<noteq> pt'"
  shows "filter (\<lambda>r. pattern_type r = pt') (task_patterns (storePattern now uid pt pd c s))
       = filter (\<lambda>r. pattern_type r = pt') (task_patterns s)"
proof (cases "\<exists>r \<in> set (task_patterns s). tp_user_id r = uid \<and> pattern_type r = pt")
  case True
  then show ?thesis
    using assms by (simp add: storePattern_def Let_def filter_map_other_type)
next
  case False
  then show ?thesis
    using assms by (auto simp: storePattern_def Let_def)
qed

text \<open>
  C9. With fewer than 5 history rows the completion-patterns step yields no patterns
  (\<open>null\<close>), and the analyzer leaves the \<open>optimal_scheduling\<close> rows of the pattern store
  as they were: none is inserted and none is changed.
\<close>

theorem few_tasks_no_scheduling_pattern:
  assumes "length hist < 5"
  shows "analyze_completion_patterns hist = None
       \<and> fst (ml_analyzer now currentHour currentDay uid hist s) = None
       \<and> filter (\<lambda>r. pattern_type r = ''optimal_scheduling'')
           (task_patterns (snd (ml_analyzer now currentHour currentDay uid hist s)))
         = filter (\<lambda>r. pattern_type r = ''optimal_scheduling'') (task_patterns s)"
proof -
  have n: "analyze_completion_patterns hist = None"
    using assms by (simp add: analyze_completion_patterns_def)
  have ne: "''complexity_handling'' \<noteq> ''optimal_scheduling''" by simp
  have "snd (ml_analyzer now currentHour currentDay uid hist s)
      = storePattern now uid ''complexity_handling''
          (Complexity_payload (analyze_complexity_patterns hist) now) (8 / 10) s"
    by (simp add: ml_analyzer_def Let_def n update_patterns_def)
  then have "filter (\<lambda>r. pattern_type r = ''optimal_scheduling'')
           (task_patterns (snd (ml_analyzer now currentHour currentDay uid hist s)))
         = filter (\<lambda>r. pattern_type r = ''optimal_scheduling'') (task_patterns s)"
    by (simp only: storePattern_other_type[OF ne])
  with n show ?thesis by (simp add: ml_analyzer_def Let_def)
qed

theorem few_tasks_no_scheduling_pattern_witness:
  "analyze_completion_patterns history4 = None
   \<and> fst (ml_analyzer 9000 10 1 ''u1'' history4 empty_state) = None
   \<and> filter (\<lambda>r. pattern_type r = ''optimal_scheduling'')
        (task_patterns (snd (ml_analyzer 9000 10 1 ''u1'' history4 empty_state))) = []"
proof -
  have l: "length history4 < 5" by (simp add: history4_def)
  from few_tasks_no_scheduling_pattern[OF l, of 9000 10 1 "''u1''" empty_state]
  show ?thesis by (simp add: empty_state_def)
qed

text \<open>
  For comparison: from 5 history rows on the step yields patterns and the store holds an
  \<open>optimal_scheduling\<close> row for the user afterwards.
\<close>

lemma filter_map_keys:
  fixes rows :: "TaskPattern list"
  assumes "\<And>r. tp_user_id (g r) = tp_user_id r" and "\<And>r. pattern_type (g r) = pattern_type r"
  shows "map (\<lambda>r. (tp_user_id r, pattern_type r)) (map (\<lambda>r. if P r then g r else r) rows)
       = map (\<lambda>r. (tp_user_id r, pattern_type r)) rows"
  using assms by (induction rows) auto

lemma storePattern_keys:
  "map (\<lambda>r. (tp_user_id r, pattern_type r)) (task_patterns (storePattern now uid pt pd c s))
     = (if (uid, pt) \<in> set (map (\<lambda>r. (tp_user_id r, pattern_type r)) (task_patterns s))
        then map (\<lambda>r. (tp_user_id r, pattern_type r)) (task_patterns s)
        else map (\<lambda>r. (tp_user_id r, pattern_type r)) (task_patterns s) @ [(uid, pt)])"
proof -
  have e: "(\<exists>r \<in> set rows. tp_user_id r = uid \<and> pattern_type r = pt)
      = ((uid, pt) \<in> set (map (\<lambda>r. (tp_user_id r, pattern_type r)) rows))"
    for rows :: "TaskPattern list"
    by (induction rows) auto
  show ?thesis
    unfolding storePattern_def Let_def e
    by (simp add: filter_map_keys del: set_map)
qed

lemma enough_tasks_scheduling_pattern:
  assumes "5 \<le> length hist"
  shows "analyze_completion_patterns hist \<noteq> None
       \<and> (uid, ''optimal_scheduling'')
           \<in> set (map (\<lambda>r. (tp_user_id r, pattern_type r))
                 (task_patterns (snd (ml_analyzer now currentHour currentDay uid hist s))))"
proof -
  from assms obtain cp where cp: "analyze_completion_patterns hist = Some cp"
    by (simp add: analyze_completion_patterns_def)
  show ?thesis
    using cp
    by (simp add: ml_analyzer_def Let_def update_patterns_def storePattern_keys del: set_map)
qed

section \<open>Properties of the velocity trend\<close>











end
